theory Spec2Isabelle
  imports Complex_Main
begin

section \<open>Data model (city\_state.py, agents.py)\<close>

text \<open>
  The simulation is embedded with explicit state passing. Python's \<open>float\<close> is modelled
  by \<open>real\<close>: sums, products and comparisons are exact, rounding is not modelled.
  A dictionary is a map; subscripting a missing key raises \<open>KeyError\<close>, which the
  model returns as a value. Printing to the console is not part of the model.
\<close>

datatype py_error = KeyError string | IndexError

record day_context =
  ctx_day :: int
  weather :: string
  events :: "string list"

record action_log_entry =
  entry_day :: int
  entry_agent_id :: int
  entry_agent_name :: string
  entry_role :: string
  description :: string

record city_state =
  day :: int
  economy :: real
  safety :: real
  happiness :: real
  daily_stats :: "string \<rightharpoonup> real"
  logs :: "action_log_entry list"

record planned_action =
  action_type :: string
  target :: "string option"
  plan_note :: string

record agent =
  agent_id :: int
  name :: string
  role :: string
  money :: real
  energy :: real
  mood :: real

text \<open>The constructors with the defaults of the dataclasses.\<close>

definition CityState :: city_state where
  "CityState = \<lparr>day = 1, economy = 100, safety = 0.8, happiness = 0.8,
     daily_stats = Map.empty, logs = []\<rparr>"

definition Agent :: "int \<Rightarrow> string \<Rightarrow> string \<Rightarrow> agent" where
  "Agent i n ro = \<lparr>agent_id = i, name = n, role = ro, money = 50, energy = 1, mood = 0.5\<rparr>"

definition PlannedAction :: "string \<Rightarrow> string option \<Rightarrow> string \<Rightarrow> planned_action" where
  "PlannedAction ty tg nt = \<lparr>action_type = ty, target = tg, plan_note = nt\<rparr>"

subsection \<open>CityState methods\<close>

definition reset_daily_stats :: "city_state \<Rightarrow> city_state" where
  "reset_daily_stats c = c\<lparr>daily_stats :=
     [''work_count'' \<mapsto> 0, ''shop_count'' \<mapsto> 0, ''patrol_count'' \<mapsto> 0,
      ''crime_attempts'' \<mapsto> 0, ''crime_prevented'' \<mapsto> 0,
      ''social_interactions'' \<mapsto> 0, ''rest_count'' \<mapsto> 0]\<rparr>"

definition log_action :: "city_state \<Rightarrow> action_log_entry \<Rightarrow> city_state" where
  "log_action c e = c\<lparr>logs := logs c @ [e]\<rparr>"

definition clamp_metrics :: "city_state \<Rightarrow> city_state" where
  "clamp_metrics c = c\<lparr>safety := max 0 (min 1 (safety c)),
     happiness := max 0 (min 1 (happiness c))\<rparr>"

text \<open>\<open>stats[k]\<close> and \<open>stats[k] += 1\<close> on the statistics dictionary.\<close>

definition stat :: "(string \<rightharpoonup> real) \<Rightarrow> string \<Rightarrow> py_error + real" where
  "stat st k = (case st k of None \<Rightarrow> Inl (KeyError k) | Some v \<Rightarrow> Inr v)"

definition incr_stat :: "(string \<rightharpoonup> real) \<Rightarrow> string \<Rightarrow> py_error + (string \<rightharpoonup> real)" where
  "incr_stat st k = (case st k of None \<Rightarrow> Inl (KeyError k) | Some v \<Rightarrow> Inr (st(k \<mapsto> v + 1)))"

subsection \<open>The random source\<close>

text \<open>
  \<open>random.Random\<close> belongs to the Python library, not to the repository: the model takes
  it as a parameter, a generator state \<open>'r\<close> with the three operations the engine uses.
  Each operation returns its result together with the advanced state.
\<close>

record 'r random_source =
  seed_op :: "int \<Rightarrow> 'r"
  random_op :: "'r \<Rightarrow> real \<times> 'r"
  choice_op :: "'r \<Rightarrow> string list \<Rightarrow> string \<times> 'r"

section \<open>Agent.plan\<close>

text \<open>
  \<open>plan\<close> receives four mutable objects (the agent itself, the city, the day context, the
  generator). The model returns the planned action together with all four, as they are
  when the call returns.
\<close>

definition plan ::
  "'r random_source \<Rightarrow> agent \<Rightarrow> city_state \<Rightarrow> day_context \<Rightarrow> 'r
     \<Rightarrow> planned_action \<times> agent \<times> city_state \<times> day_context \<times> 'r" where
  "plan rs a c x r =
    (if energy a < 0.3 then
       (PlannedAction ''rest'' None ''Too tired, staying home.'', a, c, x, r)
     else if role a = ''worker'' then
       (let (p, r') = random_op rs r in
        if p < 0.7 then (PlannedAction ''work'' (Some ''office'') '''', a, c, x, r')
        else if p < 0.85 then (PlannedAction ''socialize'' (Some ''cafe'') '''', a, c, x, r')
        else (PlannedAction ''rest'' None '''', a, c, x, r'))
     else if role a = ''shop_owner'' then
       (let (p, r') = random_op rs r in
        if economy c < 80 \<and> p < 0.3 then
          (PlannedAction ''rest'' None ''Economy looks bad.'', a, c, x, r')
        else if p < 0.75 then (PlannedAction ''shop'' (Some ''store'') '''', a, c, x, r')
        else (PlannedAction ''socialize'' (Some ''market'') '''', a, c, x, r'))
     else if role a = ''student'' then
       (let (p, r') = random_op rs r in
        if p < 0.5 then (PlannedAction ''work'' (Some ''school'') ''Studying.'', a, c, x, r')
        else if p < 0.8 then (PlannedAction ''socialize'' (Some ''park'') '''', a, c, x, r')
        else (PlannedAction ''rest'' None '''', a, c, x, r'))
     else if role a = ''police'' then
       (let (p, r') = random_op rs r;
            base_patrol = 0.6 + (0.5 - safety c) in
        if p < base_patrol then (PlannedAction ''patrol'' (Some ''streets'') '''', a, c, x, r')
        else if p < 0.9 then (PlannedAction ''socialize'' (Some ''station'') '''', a, c, x, r')
        else (PlannedAction ''rest'' None '''', a, c, x, r'))
     else
       (let (p, r') = random_op rs r in
        if p < 0.4 then (PlannedAction ''work'' (Some ''generic_job'') '''', a, c, x, r')
        else if p < 0.7 then (PlannedAction ''socialize'' (Some ''square'') '''', a, c, x, r')
        else (PlannedAction ''rest'' None '''', a, c, x, r')))"

section \<open>Agent.act\<close>

text \<open>\<open>plan.target or default\<close>: \<open>None\<close> and the empty string both give the default.\<close>

definition or_default :: "string option \<Rightarrow> string \<Rightarrow> string" where
  "or_default t d = (case t of None \<Rightarrow> d | Some s \<Rightarrow> if s = [] then d else s)"

text \<open>
  The \<open>if\<close>/\<open>elif\<close> chain of \<open>act\<close>: the updated agent, city and generator, and the
  description. The constant \<open>income\<close> and \<open>gain\<close> are formatted with one decimal.
\<close>

definition act_effect ::
  "'r random_source \<Rightarrow> planned_action \<Rightarrow> agent \<Rightarrow> city_state \<Rightarrow> 'r
     \<Rightarrow> py_error + (agent \<times> city_state \<times> 'r \<times> string)" where
  "act_effect rs pl a c r =
    (if action_type pl = ''work'' then
       (let a1 = a\<lparr>money := money a + 10, energy := energy a - 0.2, mood := mood a + 0.05\<rparr> in
        case incr_stat (daily_stats c) ''work_count'' of
          Inl e \<Rightarrow> Inl e
        | Inr st \<Rightarrow>
            Inr (a1, c\<lparr>daily_stats := st, economy := economy c + 1.5\<rparr>, r,
                 ''worked at '' @ or_default (target pl) ''workplace'' @ '' and earned 10.0.''))
     else if action_type pl = ''shop'' then
       (if money a \<ge> 5 then
          (let a1 = a\<lparr>money := money a - 5, energy := energy a - 0.1, mood := mood a + 0.1\<rparr> in
           case incr_stat (daily_stats c) ''shop_count'' of
             Inl e \<Rightarrow> Inl e
           | Inr st \<Rightarrow>
               Inr (a1, c\<lparr>daily_stats := st, economy := economy c + 1\<rparr>, r,
                    ''ran the shop at '' @ or_default (target pl) ''store''
                      @ '', trading with customers.''))
        else Inr (a, c, r, ''wanted to run the shop but lacked resources.''))
     else if action_type pl = ''rest'' then
       (let a1 = a\<lparr>energy := min 1 (energy a + 0.4), mood := mood a + 0.05\<rparr> in
        case incr_stat (daily_stats c) ''rest_count'' of
          Inl e \<Rightarrow> Inl e
        | Inr st \<Rightarrow> Inr (a1, c\<lparr>daily_stats := st\<rparr>, r, ''stayed home to rest.''))
     else if action_type pl = ''patrol'' then
       (case incr_stat (daily_stats c) ''patrol_count'' of
          Inl e \<Rightarrow> Inl e
        | Inr st \<Rightarrow>
            Inr (a\<lparr>energy := energy a - 0.2\<rparr>, c\<lparr>daily_stats := st\<rparr>, r,
                 ''patrolled the city streets.''))
     else if action_type pl = ''crime'' then
       (case incr_stat (daily_stats c) ''crime_attempts'' of
          Inl e \<Rightarrow> Inl e
        | Inr st \<Rightarrow>
            (let a1 = a\<lparr>energy := energy a - 0.2\<rparr>;
                 success_prob = 0.3 + (0.5 - safety c);
                 (p, r') = random_op rs r in
             if p < success_prob then
               Inr (a1\<lparr>money := money a1 + 15, mood := mood a1 + 0.1\<rparr>,
                    c\<lparr>daily_stats := st, safety := safety c - 0.05\<rparr>, r',
                    ''successfully committed a crime and gained 15.0.'')
             else
               (case incr_stat st ''crime_prevented'' of
                  Inl e \<Rightarrow> Inl e
                | Inr st' \<Rightarrow>
                    Inr (a1\<lparr>mood := mood a1 - 0.2\<rparr>, c\<lparr>daily_stats := st'\<rparr>, r',
                         ''attempted a crime but was caught or scared away.''))))
     else if action_type pl = ''socialize'' then
       (case incr_stat (daily_stats c) ''social_interactions'' of
          Inl e \<Rightarrow> Inl e
        | Inr st \<Rightarrow>
            Inr (a\<lparr>energy := energy a - 0.1, mood := mood a + 0.1\<rparr>, c\<lparr>daily_stats := st\<rparr>, r,
                 ''socialized at '' @ or_default (target pl) ''a public place'' @ ''.''))
     else Inr (a, c, r, ''''))"

text \<open>The whole of \<open>act\<close>: the effect, the clamp of energy and mood, the log entry.\<close>

definition act ::
  "'r random_source \<Rightarrow> planned_action \<Rightarrow> agent \<Rightarrow> city_state \<Rightarrow> 'r
     \<Rightarrow> py_error + (agent \<times> city_state \<times> 'r)" where
  "act rs pl a c r =
    (case act_effect rs pl a c r of
       Inl e \<Rightarrow> Inl e
     | Inr (a1, c1, r1, desc) \<Rightarrow>
         (let a2 = a1\<lparr>energy := max 0 (min 1 (energy a1))\<rparr>;
              a3 = a2\<lparr>mood := max 0 (min 1 (mood a2))\<rparr> in
          Inr (a3,
               log_action c1
                 \<lparr>entry_day = day c1, entry_agent_id = agent_id a3,
                  entry_agent_name = name a3, entry_role = role a3,
                  description = (if desc = [] then ''did nothing in particular.'' else desc)\<rparr>,
               r1)))"

section \<open>CitySimulationEngine (workflow.py)\<close>

record 'r engine =
  rng :: 'r
  city :: city_state
  agents :: "agent list"

definition create_default_agents :: "agent list" where
  "create_default_agents =
     [Agent 1 ''Alice'' ''worker'', Agent 2 ''Bob'' ''worker'', Agent 3 ''Carla'' ''shop_owner'',
      Agent 4 ''Daniel'' ''student'', Agent 5 ''Eva'' ''police'', Agent 6 ''Frank'' ''citizen'']"

text \<open>
  \<open>__init__\<close>: \<open>random.Random(seed)\<close> with an integer seeds the generator from it; with
  \<open>None\<close> the library seeds it from the operating system's entropy, an input \<open>entropy\<close>
  of the model.
\<close>

definition engine_init :: "'r random_source \<Rightarrow> int \<Rightarrow> int option \<Rightarrow> 'r engine" where
  "engine_init rs entropy seed =
     \<lparr>rng = seed_op rs (case seed of None \<Rightarrow> entropy | Some s \<Rightarrow> s),
      city = CityState, agents = create_default_agents\<rparr>"

definition random_weather :: "'r random_source \<Rightarrow> 'r \<Rightarrow> string \<times> 'r" where
  "random_weather rs r = choice_op rs r [''sunny'', ''cloudy'', ''rainy'', ''windy'']"

definition day_context :: "'r random_source \<Rightarrow> 'r engine \<Rightarrow> day_context \<times> 'r engine" where
  "day_context rs e =
    (let (w, r1) = random_weather rs (rng e);
         (p, r2) = random_op rs r1;
         evs = (if p < 0.1 then [''city_festival'']
                else if p < 0.18 then [''minor_economic_downturn'']
                else if p < 0.25 then [''crime_wave'']
                else [])
     in (\<lparr>ctx_day = day (city e), weather = w, events = evs\<rparr>, e\<lparr>rng := r2\<rparr>))"

definition day_start :: "'r engine \<Rightarrow> 'r engine" where
  "day_start e = e\<lparr>city := reset_daily_stats (city e)\<rparr>"

text \<open>
  The loop of \<open>_citizen_planning\<close> over the roster, with the dictionary of plans built so
  far. The agents are returned in roster order, as the calls leave them.
\<close>

fun planning_loop ::
  "'r random_source \<Rightarrow> agent list \<Rightarrow> city_state \<Rightarrow> day_context \<Rightarrow> 'r \<Rightarrow> (int \<rightharpoonup> planned_action)
     \<Rightarrow> (int \<rightharpoonup> planned_action) \<times> agent list \<times> city_state \<times> day_context \<times> 'r" where
  "planning_loop rs [] c x r ps = (ps, [], c, x, r)"
| "planning_loop rs (a # as) c x r ps =
    (case plan rs a c x r of
       (pl, a', c', x', r') \<Rightarrow>
         (case planning_loop rs as c' x' r' (ps(agent_id a' \<mapsto> pl)) of
            (ps', as', c'', x'', r'') \<Rightarrow> (ps', a' # as', c'', x'', r'')))"

definition citizen_planning ::
  "'r random_source \<Rightarrow> 'r engine \<Rightarrow> day_context
     \<Rightarrow> (int \<rightharpoonup> planned_action) \<times> 'r engine \<times> day_context" where
  "citizen_planning rs e x =
    (case planning_loop rs (agents e) (city e) x (rng e) Map.empty of
       (ps, as', c', x', r') \<Rightarrow> (ps, \<lparr>rng = r', city = c', agents = as'\<rparr>, x'))"

text \<open>
  The loop of \<open>_citizen_actions\<close>: an agent without a plan is skipped; after \<open>act\<close> the
  engine reads \<open>logs[-1]\<close>, an \<open>IndexError\<close> on an empty log.
\<close>

fun actions_loop ::
  "'r random_source \<Rightarrow> (int \<rightharpoonup> planned_action) \<Rightarrow> agent list \<Rightarrow> city_state \<Rightarrow> 'r
     \<Rightarrow> py_error + (agent list \<times> city_state \<times> 'r)" where
  "actions_loop rs ps [] c r = Inr ([], c, r)"
| "actions_loop rs ps (a # as) c r =
    (case ps (agent_id a) of
       None \<Rightarrow>
         (case actions_loop rs ps as c r of
            Inl e \<Rightarrow> Inl e
          | Inr (as', c', r') \<Rightarrow> Inr (a # as', c', r'))
     | Some pl \<Rightarrow>
         (case act rs pl a c r of
            Inl e \<Rightarrow> Inl e
          | Inr (a1, c1, r1) \<Rightarrow>
              if logs c1 = [] then Inl IndexError
              else
                (case actions_loop rs ps as c1 r1 of
                   Inl e \<Rightarrow> Inl e
                 | Inr (as', c', r') \<Rightarrow> Inr (a1 # as', c', r'))))"

definition citizen_actions ::
  "'r random_source \<Rightarrow> (int \<rightharpoonup> planned_action) \<Rightarrow> 'r engine \<Rightarrow> py_error + 'r engine" where
  "citizen_actions rs ps e =
    (case actions_loop rs ps (agents e) (city e) (rng e) of
       Inl err \<Rightarrow> Inl err
     | Inr (as', c', r') \<Rightarrow> Inr \<lparr>rng = r', city = c', agents = as'\<rparr>)"

text \<open>\<open>_city_update\<close> on the city; the subscripts are read in the order of the source.\<close>

definition city_update_phase :: "city_state \<Rightarrow> py_error + city_state" where
  "city_update_phase c =
    (case stat (daily_stats c) ''work_count'' of Inl e \<Rightarrow> Inl e | Inr work_count \<Rightarrow>
    (case stat (daily_stats c) ''shop_count'' of Inl e \<Rightarrow> Inl e | Inr shop_count \<Rightarrow>
    (case stat (daily_stats c) ''patrol_count'' of Inl e \<Rightarrow> Inl e | Inr patrol_count \<Rightarrow>
    (case stat (daily_stats c) ''crime_attempts'' of Inl e \<Rightarrow> Inl e | Inr crime_attempts \<Rightarrow>
    (case stat (daily_stats c) ''crime_prevented'' of Inl e \<Rightarrow> Inl e | Inr crime_prevented \<Rightarrow>
    (case stat (daily_stats c) ''social_interactions'' of Inl e \<Rightarrow> Inl e | Inr social_interactions \<Rightarrow>
    (case stat (daily_stats c) ''rest_count'' of Inl e \<Rightarrow> Inl e | Inr rest_count \<Rightarrow>
       (let c1 = c\<lparr>economy := economy c + (0.5 * work_count + 0.3 * shop_count)\<rparr>;
            c2 = c1\<lparr>economy := economy c1 * 0.995\<rparr>;
            c3 = c2\<lparr>safety := safety c2 + 0.01 * patrol_count\<rparr>;
            c4 = c3\<lparr>safety := safety c3 - 0.03 * crime_attempts\<rparr>;
            c5 = c4\<lparr>safety := safety c4 + 0.02 * crime_prevented\<rparr>;
            c6 = c5\<lparr>happiness := happiness c5 + 0.01 * social_interactions\<rparr>;
            c7 = c6\<lparr>happiness := happiness c6 + 0.005 * rest_count\<rparr>;
            c8 = c7\<lparr>happiness := happiness c7 - 0.015 * crime_attempts\<rparr>
        in Inr (clamp_metrics c8)))))))))"

definition next_day :: "'r engine \<Rightarrow> 'r engine" where
  "next_day e = (let c = city e in e\<lparr>city := c\<lparr>day := day c + 1\<rparr>\<rparr>)"

text \<open>
  One iteration of the loop of \<open>run\<close>. The reporting phase only prints. The plans of the
  day are returned with the engine, so that properties of the planned actions of a run
  can be stated.
\<close>

definition run_day ::
  "'r random_source \<Rightarrow> 'r engine \<Rightarrow> py_error + ('r engine \<times> (int \<rightharpoonup> planned_action))" where
  "run_day rs e =
    (let e1 = day_start e;
         (x, e2) = day_context rs e1;
         (ps, e3, x') = citizen_planning rs e2 x in
     case citizen_actions rs ps e3 of
       Inl err \<Rightarrow> Inl err
     | Inr e4 \<Rightarrow>
         (case city_update_phase (city e4) of
            Inl err \<Rightarrow> Inl err
          | Inr c5 \<Rightarrow> Inr (next_day (e4\<lparr>city := c5\<rparr>), ps)))"

fun run_days ::
  "'r random_source \<Rightarrow> nat \<Rightarrow> 'r engine
     \<Rightarrow> py_error + ('r engine \<times> (int \<rightharpoonup> planned_action) list)" where
  "run_days rs 0 e = Inr (e, [])"
| "run_days rs (Suc n) e =
    (case run_day rs e of
       Inl err \<Rightarrow> Inl err
     | Inr (e1, ps) \<Rightarrow>
         (case run_days rs n e1 of
            Inl err \<Rightarrow> Inl err
          | Inr (e2, tr) \<Rightarrow> Inr (e2, ps # tr)))"

text \<open>\<open>for _ in range(days)\<close>: no iteration when \<open>days\<close> is zero or negative.\<close>

definition run ::
  "'r random_source \<Rightarrow> 'r engine \<Rightarrow> int
     \<Rightarrow> py_error + ('r engine \<times> (int \<rightharpoonup> planned_action) list)" where
  "run rs e days = run_days rs (nat days) e"

subsection \<open>A concrete random source for examples\<close>

text \<open>
  The generator state is the list of the draws to come; an exhausted list draws 0, and
  \<open>choice\<close> takes the first element.
\<close>

definition scripted :: "real list random_source" where
  "scripted =
     \<lparr>seed_op = (\<lambda>n. [real_of_int (n mod 10) / 10, 0.5, 0.9]),
      random_op = (\<lambda>xs. case xs of [] \<Rightarrow> (0, []) | v # ys \<Rightarrow> (v, ys)),
      choice_op = (\<lambda>xs seq. (case seq of [] \<Rightarrow> [] | s # _ \<Rightarrow> s, xs))\<rparr>"

text \<open>An engine seeded with 42, and a city at the start of a day.\<close>

definition example_engine :: "real list engine" where
  "example_engine = engine_init scripted 0 (Some 42)"

definition example_city :: city_state where
  "example_city = reset_daily_stats CityState"

text \<open>
  A second source with another representation of the generator state: the position in
  the same sequence of draws, kept with the seed. \<open>indexed_rel\<close> relates a state of
  \<open>scripted\<close> to the state of \<open>indexed\<close> that has the same draws to come.
\<close>

definition indexed :: "(nat \<times> int) random_source" where
  "indexed =
     \<lparr>seed_op = (\<lambda>n. (0, n)),
      random_op = (\<lambda>(i, n). (if i = 0 then real_of_int (n mod 10) / 10
                              else if i = 1 then 0.5 else if i = 2 then 0.9 else 0, (i + 1, n))),
      choice_op = (\<lambda>st seq. (case seq of [] \<Rightarrow> [] | s # _ \<Rightarrow> s, st))\<rparr>"

definition indexed_rel :: "real list \<Rightarrow> nat \<times> int \<Rightarrow> bool" where
  "indexed_rel xs st = (xs = drop (fst st) [real_of_int (snd st mod 10) / 10, 0.5, 0.9])"

subsection \<open>Predicates used in the statements\<close>

text \<open>
  The seven counters of \<open>reset_daily_stats\<close>; a city is ready for a day's actions when its
  statistics hold all of them. The action types that \<open>plan\<close> produces.
\<close>

definition stat_keys :: "string list" where
  "stat_keys = [''work_count'', ''shop_count'', ''patrol_count'', ''crime_attempts'',
     ''crime_prevented'', ''social_interactions'', ''rest_count'']"

definition stats_ready :: "city_state \<Rightarrow> bool" where
  "stats_ready c = (set stat_keys \<subseteq> dom (daily_stats c))"

definition planned_types :: "string set" where
  "planned_types = {''work'', ''shop'', ''rest'', ''patrol'', ''socialize''}"

text \<open>
  Two random sources, possibly with different state types, deliver the same draws from
  states related by \<open>R\<close>: \<open>random\<close> and \<open>choice\<close> return the same result and lead to
  related states again. Two engines are in the same state of a run when they have the
  same city and agents and related generators.
\<close>

definition draws_agree ::
  "('a \<Rightarrow> 'b \<Rightarrow> bool) \<Rightarrow> 'a random_source \<Rightarrow> 'b random_source \<Rightarrow> bool" where
  "draws_agree R rs1 rs2 =
     ((\<forall>r1 r2. R r1 r2 \<longrightarrow>
         fst (random_op rs1 r1) = fst (random_op rs2 r2)
         \<and> R (snd (random_op rs1 r1)) (snd (random_op rs2 r2)))
      \<and> (\<forall>r1 r2 seq. R r1 r2 \<longrightarrow>
         fst (choice_op rs1 r1 seq) = fst (choice_op rs2 r2 seq)
         \<and> R (snd (choice_op rs1 r1 seq)) (snd (choice_op rs2 r2 seq))))"

definition same_run_state :: "('a \<Rightarrow> 'b \<Rightarrow> bool) \<Rightarrow> 'a engine \<Rightarrow> 'b engine \<Rightarrow> bool" where
  "same_run_state R e1 e2 = (city e1 = city e2 \<and> agents e1 = agents e2 \<and> R (rng e1) (rng e2))"

section \<open>Auxiliary lemmas\<close>

subsection \<open>The statistics dictionary and act\<close>

lemma incr_stat_Inr:
  "incr_stat st k = Inr st' \<Longrightarrow> \<exists>v. st k = Some v \<and> st' = st(k \<mapsto> v + 1)"
  by (auto simp: incr_stat_def split: option.splits)

lemma incr_stat_dom: "incr_stat st k = Inr st' \<Longrightarrow> dom st' = dom st"
  by (auto simp: incr_stat_def split: option.splits if_splits)

lemma incr_stat_ok: "k \<in> dom st \<Longrightarrow> \<exists>st'. incr_stat st k = Inr st'"
  by (auto simp: incr_stat_def)

lemma act_effect_frame:
  assumes "act_effect rs pl a c r = Inr (a1, c1, r1, d)"
  shows "agent_id a1 = agent_id a \<and> name a1 = name a \<and> role a1 = role a
     \<and> day c1 = day c \<and> logs c1 = logs c
     \<and> (k \<in> dom (daily_stats c) \<longrightarrow> k \<in> dom (daily_stats c1))"
  using assms
  by (auto simp: act_effect_def Let_def split_beta
      split: if_splits sum.splits dest!: incr_stat_Inr)

lemma act_effect_ok:
  assumes "stats_ready c"
  shows "\<exists>res. act_effect rs pl a c r = Inr res"
proof -
  have k: "\<And>k. k \<in> set stat_keys \<Longrightarrow> \<exists>st'. incr_stat (daily_stats c) k = Inr st'"
    using assms by (auto simp: stats_ready_def intro: incr_stat_ok)
  have "\<exists>st'. incr_stat (daily_stats c) ''work_count'' = Inr st'"
       "\<exists>st'. incr_stat (daily_stats c) ''shop_count'' = Inr st'"
       "\<exists>st'. incr_stat (daily_stats c) ''rest_count'' = Inr st'"
       "\<exists>st'. incr_stat (daily_stats c) ''patrol_count'' = Inr st'"
       "\<exists>st'. incr_stat (daily_stats c) ''social_interactions'' = Inr st'"
    by (rule k, simp add: stat_keys_def)+
  moreover
  have "\<exists>st'. incr_stat (daily_stats c) ''crime_attempts'' = Inr st'
          \<and> (\<exists>st''. incr_stat st' ''crime_prevented'' = Inr st'')"
  proof -
    obtain st' where s: "incr_stat (daily_stats c) ''crime_attempts'' = Inr st'"
      using k [of "''crime_attempts''"] by (auto simp: stat_keys_def)
    have "''crime_prevented'' \<in> dom st'"
      using assms incr_stat_dom [OF s] by (auto simp: stats_ready_def stat_keys_def)
    then show ?thesis using s incr_stat_ok by blast
  qed
  ultimately show ?thesis
    by (auto simp: act_effect_def Let_def split_beta)
qed

lemma act_frame:
  assumes "act rs pl a c r = Inr (a', c', r')"
  shows "agent_id a' = agent_id a \<and> name a' = name a \<and> role a' = role a
     \<and> day c' = day c \<and> (k \<in> dom (daily_stats c) \<longrightarrow> k \<in> dom (daily_stats c'))
     \<and> (\<exists>d. logs c' = logs c @ [\<lparr>entry_day = day c, entry_agent_id = agent_id a,
            entry_agent_name = name a, entry_role = role a, description = d\<rparr>])"
proof -
  obtain a1 c1 r1 d where e: "act_effect rs pl a c r = Inr (a1, c1, r1, d)"
    using assms by (auto simp: act_def split: sum.splits)
  from act_effect_frame [OF e, where k = k] assms e show ?thesis
    by (auto simp: act_def Let_def log_action_def)
qed

lemma act_ok:
  assumes "stats_ready c"
  shows "\<exists>a' c' r'. act rs pl a c r = Inr (a', c', r')"
proof -
  obtain res where "act_effect rs pl a c r = Inr res"
    using act_effect_ok [OF assms, of rs pl a r] by auto
  then show ?thesis
    by (cases res) (auto simp: act_def Let_def)
qed

lemma act_clamped:
  assumes "act rs pl a c r = Inr (a', c', r')"
  shows "0 \<le> energy a' \<and> energy a' \<le> 1 \<and> 0 \<le> mood a' \<and> mood a' \<le> 1"
  using assms by (auto simp: act_def Let_def split: sum.splits)

lemma act_no_crime:
  assumes "act rs pl a c r = Inr (a', c', r')" and "action_type pl \<noteq> ''crime''"
  shows "daily_stats c' ''crime_attempts'' = daily_stats c ''crime_attempts''
     \<and> daily_stats c' ''crime_prevented'' = daily_stats c ''crime_prevented''"
  using assms
  by (auto simp: act_def act_effect_def Let_def log_action_def
      split: if_splits sum.splits dest!: incr_stat_Inr)

lemma plan_result:
  "\<exists>pl r'. plan rs a c x r = (pl, a, c, x, r') \<and> action_type pl \<in> planned_types"
  by (simp add: plan_def PlannedAction_def planned_types_def Let_def split_beta)

lemma planning_loop_result:
  "\<exists>ps' r'. planning_loop rs as c x r ps = (ps', as, c, x, r')
      \<and> dom ps' = dom ps \<union> agent_id ` set as
      \<and> (\<forall>i pl. ps' i = Some pl \<longrightarrow> ps i = Some pl \<or> action_type pl \<in> planned_types)"
proof (induction as arbitrary: r ps)
  case Nil
  show ?case by simp
next
  case (Cons a as)
  obtain pl r1 where p: "plan rs a c x r = (pl, a, c, x, r1)"
    and t: "action_type pl \<in> planned_types"
    using plan_result [of rs a c x r] by blast
  obtain ps' r' where l: "planning_loop rs as c x r1 (ps(agent_id a \<mapsto> pl)) = (ps', as, c, x, r')"
    and d: "dom ps' = dom (ps(agent_id a \<mapsto> pl)) \<union> agent_id ` set as"
    and k: "\<forall>i q. ps' i = Some q \<longrightarrow>
              (ps(agent_id a \<mapsto> pl)) i = Some q \<or> action_type q \<in> planned_types"
    using Cons.IH [of r1 "ps(agent_id a \<mapsto> pl)"] by blast
  have "planning_loop rs (a # as) c x r ps = (ps', a # as, c, x, r')"
    using p l by simp
  moreover have "dom ps' = dom ps \<union> agent_id ` set (a # as)"
    using d by auto
  moreover have "\<forall>i q. ps' i = Some q \<longrightarrow> ps i = Some q \<or> action_type q \<in> planned_types"
    using k t by (auto split: if_splits)
  ultimately show ?case by blast
qed

lemma stats_ready_act:
  assumes "act rs pl a c r = Inr (a', c', r')" and "stats_ready c"
  shows "stats_ready c'"
  unfolding stats_ready_def
proof
  fix k assume "k \<in> set stat_keys"
  then have "k \<in> dom (daily_stats c)"
    using assms(2) by (auto simp: stats_ready_def)
  then show "k \<in> dom (daily_stats c')"
    using act_frame [OF assms(1), where k = k] by blast
qed

lemma actions_loop_result:
  assumes "stats_ready c" and "\<forall>a \<in> set as. ps (agent_id a) \<noteq> None"
  shows "\<exists>as' c' r' es. actions_loop rs ps as c r = Inr (as', c', r')
      \<and> logs c' = logs c @ es
      \<and> map (\<lambda>x. (entry_day x, entry_agent_id x, entry_agent_name x, entry_role x)) es
          = map (\<lambda>a. (day c, agent_id a, name a, role a)) as
      \<and> map agent_id as' = map agent_id as
      \<and> day c' = day c \<and> stats_ready c'"
  using assms
proof (induction as arbitrary: c r)
  case Nil
  then show ?case by simp
next
  case (Cons a as)
  obtain pl where pl: "ps (agent_id a) = Some pl"
    using Cons.prems(2) by auto
  obtain a1 c1 r1 where a: "act rs pl a c r = Inr (a1, c1, r1)"
    using act_ok [OF Cons.prems(1), of rs pl a r] by blast
  obtain d where f: "agent_id a1 = agent_id a" "day c1 = day c"
    and lg: "logs c1 = logs c @ [\<lparr>entry_day = day c, entry_agent_id = agent_id a,
            entry_agent_name = name a, entry_role = role a, description = d\<rparr>]"
    using act_frame [OF a] by blast
  have rdy: "stats_ready c1"
    using stats_ready_act [OF a Cons.prems(1)] .
  have rest: "\<forall>b \<in> set as. ps (agent_id b) \<noteq> None"
    using Cons.prems(2) by simp
  obtain as' c' r' es where l: "actions_loop rs ps as c1 r1 = Inr (as', c', r')"
    and lg': "logs c' = logs c1 @ es"
    and es: "map (\<lambda>x. (entry_day x, entry_agent_id x, entry_agent_name x, entry_role x)) es
          = map (\<lambda>a. (day c1, agent_id a, name a, role a)) as"
    and ids: "map agent_id as' = map agent_id as"
    and dy: "day c' = day c1" and rdy': "stats_ready c'"
    using Cons.IH [OF rdy rest, of r1] by blast
  have "actions_loop rs ps (a # as) c r = Inr (a1 # as', c', r')"
    using pl a l lg by simp
  moreover have "logs c' = logs c @ (\<lparr>entry_day = day c, entry_agent_id = agent_id a,
            entry_agent_name = name a, entry_role = role a, description = d\<rparr> # es)"
    using lg lg' by simp
  moreover have "map (\<lambda>x. (entry_day x, entry_agent_id x, entry_agent_name x, entry_role x))
          (\<lparr>entry_day = day c, entry_agent_id = agent_id a,
            entry_agent_name = name a, entry_role = role a, description = d\<rparr> # es)
          = map (\<lambda>b. (day c, agent_id b, name b, role b)) (a # as)"
    using es f by simp
  moreover have "map agent_id (a1 # as') = map agent_id (a # as)"
    using ids f by simp
  moreover have "day c' = day c"
    using dy f by simp
  ultimately show ?case using rdy' by blast
qed

lemma actions_loop_no_crime:
  assumes "actions_loop rs ps as c r = Inr (as', c', r')"
    and "\<forall>i pl. ps i = Some pl \<longrightarrow> action_type pl \<noteq> ''crime''"
  shows "daily_stats c' ''crime_attempts'' = daily_stats c ''crime_attempts''
     \<and> daily_stats c' ''crime_prevented'' = daily_stats c ''crime_prevented''"
  using assms
proof (induction as arbitrary: c r as')
  case Nil
  then show ?case by simp
next
  case (Cons a as)
  show ?case
  proof (cases "ps (agent_id a)")
    case None
    then obtain bs where "actions_loop rs ps as c r = Inr (bs, c', r')"
      using Cons.prems(1) by (auto split: sum.splits)
    then show ?thesis using Cons.IH Cons.prems(2) by blast
  next
    case (Some pl)
    then obtain a1 c1 r1 bs where a: "act rs pl a c r = Inr (a1, c1, r1)"
      and l: "actions_loop rs ps as c1 r1 = Inr (bs, c', r')"
      using Cons.prems(1) by (auto split: sum.splits if_splits)
    have "action_type pl \<noteq> ''crime''"
      using Some Cons.prems(2) by blast
    then have "daily_stats c1 ''crime_attempts'' = daily_stats c ''crime_attempts''
       \<and> daily_stats c1 ''crime_prevented'' = daily_stats c ''crime_prevented''"
      using act_no_crime [OF a] by blast
    moreover have "daily_stats c' ''crime_attempts'' = daily_stats c1 ''crime_attempts''
       \<and> daily_stats c' ''crime_prevented'' = daily_stats c1 ''crime_prevented''"
      using Cons.IH [OF l Cons.prems(2)] .
    ultimately show ?thesis by simp
  qed
qed

subsection \<open>The city update and the daily cycle\<close>

lemma stat_ok: "k \<in> dom st \<Longrightarrow> \<exists>v. stat st k = Inr v"
  by (auto simp: stat_def)

lemma city_update_phase_Inr:
  assumes "city_update_phase c = Inr c'"
  shows "day c' = day c \<and> logs c' = logs c \<and> daily_stats c' = daily_stats c
     \<and> 0 \<le> safety c' \<and> safety c' \<le> 1 \<and> 0 \<le> happiness c' \<and> happiness c' \<le> 1"
  using assms
  by (auto simp: city_update_phase_def clamp_metrics_def Let_def split: sum.splits)

lemma city_update_phase_ok:
  assumes "stats_ready c"
  shows "\<exists>c'. city_update_phase c = Inr c'"
proof -
  have k: "\<And>k. k \<in> set stat_keys \<Longrightarrow> \<exists>v. stat (daily_stats c) k = Inr v"
    using assms by (auto simp: stats_ready_def intro: stat_ok)
  have "\<exists>v. stat (daily_stats c) ''work_count'' = Inr v"
       "\<exists>v. stat (daily_stats c) ''shop_count'' = Inr v"
       "\<exists>v. stat (daily_stats c) ''patrol_count'' = Inr v"
       "\<exists>v. stat (daily_stats c) ''crime_attempts'' = Inr v"
       "\<exists>v. stat (daily_stats c) ''crime_prevented'' = Inr v"
       "\<exists>v. stat (daily_stats c) ''social_interactions'' = Inr v"
       "\<exists>v. stat (daily_stats c) ''rest_count'' = Inr v"
    by (rule k, simp add: stat_keys_def)+
  then show ?thesis
    by (auto simp: city_update_phase_def)
qed

lemma stats_ready_reset: "stats_ready (reset_daily_stats c)"
  by (simp add: stats_ready_def stat_keys_def reset_daily_stats_def)

lemma planned_not_crime: "t \<in> planned_types \<Longrightarrow> t \<noteq> ''crime''"
  by (auto simp: planned_types_def)

lemma run_day_result:
  "\<exists>e' ps es. run_day rs e = Inr (e', ps)
      \<and> dom ps = agent_id ` set (agents e)
      \<and> (\<forall>i pl. ps i = Some pl \<longrightarrow> action_type pl \<in> planned_types)
      \<and> logs (city e') = logs (city e) @ es
      \<and> map (\<lambda>x. (entry_day x, entry_agent_id x, entry_agent_name x, entry_role x)) es
          = map (\<lambda>a. (day (city e), agent_id a, name a, role a)) (agents e)
      \<and> map agent_id (agents e') = map agent_id (agents e)
      \<and> day (city e') = day (city e) + 1
      \<and> daily_stats (city e') ''crime_attempts'' = Some 0
      \<and> daily_stats (city e') ''crime_prevented'' = Some 0
      \<and> 0 \<le> safety (city e') \<and> safety (city e') \<le> 1
      \<and> 0 \<le> happiness (city e') \<and> happiness (city e') \<le> 1"
proof -
  define c0 where "c0 = reset_daily_stats (city e)"
  obtain x e2 where x: "day_context rs (day_start e) = (x, e2)"
    by (cases "day_context rs (day_start e)") 
  have e2: "city e2 = c0" "agents e2 = agents e"
    using x by (auto simp: day_context_def day_start_def c0_def Let_def split_beta)
  obtain ps r3 where pl: "planning_loop rs (agents e) c0 x (rng e2) Map.empty
        = (ps, agents e, c0, x, r3)"
    and dm: "dom ps = agent_id ` set (agents e)"
    and ty: "\<forall>i pl. ps i = Some pl \<longrightarrow> action_type pl \<in> planned_types"
    using planning_loop_result [of rs "agents e" c0 x "rng e2" Map.empty] by auto
  have cp: "citizen_planning rs e2 x = (ps, \<lparr>rng = r3, city = c0, agents = agents e\<rparr>, x)"
    using pl e2 by (simp add: citizen_planning_def)
  have rdy: "stats_ready c0"
    by (simp add: c0_def stats_ready_reset)
  have all: "\<forall>a \<in> set (agents e). ps (agent_id a) \<noteq> None"
    using dm by (metis domIff imageI)
  obtain as' c4 r4 es where al: "actions_loop rs ps (agents e) c0 r3 = Inr (as', c4, r4)"
    and lg: "logs c4 = logs c0 @ es"
    and es: "map (\<lambda>x. (entry_day x, entry_agent_id x, entry_agent_name x, entry_role x)) es
          = map (\<lambda>a. (day c0, agent_id a, name a, role a)) (agents e)"
    and ids: "map agent_id as' = map agent_id (agents e)"
    and dy: "day c4 = day c0" and rdy4: "stats_ready c4"
    using actions_loop_result [OF rdy all, of rs r3] by blast
  have nc: "\<forall>i pl. ps i = Some pl \<longrightarrow> action_type pl \<noteq> ''crime''"
    using ty planned_not_crime by blast
  have cr: "daily_stats c4 ''crime_attempts'' = Some 0
     \<and> daily_stats c4 ''crime_prevented'' = Some 0"
    using actions_loop_no_crime [OF al nc] by (simp add: c0_def reset_daily_stats_def)
  obtain c5 where cu: "city_update_phase c4 = Inr c5"
    using city_update_phase_ok [OF rdy4] by blast
  note u = city_update_phase_Inr [OF cu]
  have c0: "logs c0 = logs (city e)" "day c0 = day (city e)"
    by (simp_all add: c0_def reset_daily_stats_def)
  have "run_day rs e
      = Inr (next_day (\<lparr>rng = r4, city = c4, agents = as'\<rparr>\<lparr>city := c5\<rparr>), ps)"
    using x cp al cu by (simp add: run_day_def citizen_actions_def)
  then show ?thesis
    using dm ty lg es ids dy cr u c0 by (simp add: next_day_def)
qed

lemma run_days_result:
  "\<exists>e' tr es. run_days rs n e = Inr (e', tr) \<and> length tr = n
      \<and> (\<forall>ps \<in> set tr. \<forall>i pl. ps i = Some pl \<longrightarrow> action_type pl \<in> planned_types)
      \<and> logs (city e') = logs (city e) @ es \<and> length es = n * length (agents e)
      \<and> length (agents e') = length (agents e)
      \<and> day (city e') = day (city e) + int n"
proof (induction n arbitrary: e)
  case 0
  show ?case by simp
next
  case (Suc n)
  obtain e1 ps es1 where d: "run_day rs e = Inr (e1, ps)"
    and ty: "\<forall>i pl. ps i = Some pl \<longrightarrow> action_type pl \<in> planned_types"
    and lg: "logs (city e1) = logs (city e) @ es1"
    and es: "map (\<lambda>x. (entry_day x, entry_agent_id x, entry_agent_name x, entry_role x)) es1
          = map (\<lambda>a. (day (city e), agent_id a, name a, role a)) (agents e)"
    and ids: "map agent_id (agents e1) = map agent_id (agents e)"
    and dy: "day (city e1) = day (city e) + 1"
    using run_day_result [of rs e] by blast
  have len: "length es1 = length (agents e)" "length (agents e1) = length (agents e)"
    using arg_cong [OF es, of length] arg_cong [OF ids, of length] by simp_all
  obtain e' tr es where r: "run_days rs n e1 = Inr (e', tr)" and ltr: "length tr = n"
    and tys: "\<forall>ps \<in> set tr. \<forall>i pl. ps i = Some pl \<longrightarrow> action_type pl \<in> planned_types"
    and lg': "logs (city e') = logs (city e1) @ es" and les: "length es = n * length (agents e1)"
    and la: "length (agents e') = length (agents e1)"
    and dy': "day (city e') = day (city e1) + int n"
    using Suc.IH [of e1] by blast
  have "run_days rs (Suc n) e = Inr (e', ps # tr) \<and> length (ps # tr) = Suc n
      \<and> (\<forall>q \<in> set (ps # tr). \<forall>i pl. q i = Some pl \<longrightarrow> action_type pl \<in> planned_types)
      \<and> logs (city e') = logs (city e) @ (es1 @ es)
      \<and> length (es1 @ es) = Suc n * length (agents e)
      \<and> length (agents e') = length (agents e)
      \<and> day (city e') = day (city e) + int (Suc n)"
    using d r ltr ty tys lg lg' len les la dy dy' by simp
  then show ?case by blast
qed

lemma run_days_crime_free:
  assumes "run_days rs n e = Inr (e', tr)" and "0 < n"
  shows "daily_stats (city e') ''crime_attempts'' = Some 0
     \<and> daily_stats (city e') ''crime_prevented'' = Some 0"
  using assms
proof (induction n arbitrary: e tr)
  case 0
  then show ?case by simp
next
  case (Suc n)
  obtain e1 ps where d: "run_day rs e = Inr (e1, ps)"
    and z: "daily_stats (city e1) ''crime_attempts'' = Some 0
       \<and> daily_stats (city e1) ''crime_prevented'' = Some 0"
    using run_day_result [of rs e] by blast
  obtain tr' where r: "run_days rs n e1 = Inr (e', tr')"
    using Suc.prems(1) d by (auto split: sum.splits)
  show ?case
  proof (cases n)
    case 0
    then show ?thesis using r z by simp
  next
    case (Suc k)
    then show ?thesis using Suc.IH [OF r] by simp
  qed
qed

subsection \<open>Two runs side by side\<close>

text \<open>
  Each operation of the engine, run on two sources that deliver the same draws, returns
  the same plans, agents and city and leaves the generators related.
\<close>

lemma draws_agree_random:
  assumes "draws_agree R rs1 rs2" and "R r1 r2"
  shows "\<exists>p r1' r2'. random_op rs1 r1 = (p, r1') \<and> random_op rs2 r2 = (p, r2') \<and> R r1' r2'"
proof -
  have "fst (random_op rs1 r1) = fst (random_op rs2 r2)
      \<and> R (snd (random_op rs1 r1)) (snd (random_op rs2 r2))"
    using assms by (simp add: draws_agree_def)
  then show ?thesis
    by (cases "random_op rs1 r1"; cases "random_op rs2 r2") simp
qed

lemma draws_agree_choice:
  assumes "draws_agree R rs1 rs2" and "R r1 r2"
  shows "\<exists>w r1' r2'. choice_op rs1 r1 seq = (w, r1') \<and> choice_op rs2 r2 seq = (w, r2')
      \<and> R r1' r2'"
proof -
  have "fst (choice_op rs1 r1 seq) = fst (choice_op rs2 r2 seq)
      \<and> R (snd (choice_op rs1 r1 seq)) (snd (choice_op rs2 r2 seq))"
    using assms by (simp add: draws_agree_def)
  then show ?thesis
    by (cases "choice_op rs1 r1 seq"; cases "choice_op rs2 r2 seq") simp
qed

lemma plan_draws:
  assumes "draws_agree R rs1 rs2" and "R r1 r2"
  shows "\<exists>pl r1' r2'. plan rs1 a c x r1 = (pl, a, c, x, r1')
      \<and> plan rs2 a c x r2 = (pl, a, c, x, r2') \<and> R r1' r2'"
proof (cases "energy a < 0.3")
  case True
  then show ?thesis using assms(2) by (simp add: plan_def)
next
  case False
  obtain p r1' r2' where d: "random_op rs1 r1 = (p, r1')" "random_op rs2 r2 = (p, r2')"
    and r: "R r1' r2'"
    using draws_agree_random [OF assms] by blast
  show ?thesis
    using False d r by (simp add: plan_def)
qed

lemma planning_loop_draws:
  assumes "draws_agree R rs1 rs2" and "R r1 r2"
  shows "\<exists>ps' r1' r2'. planning_loop rs1 as c x r1 ps = (ps', as, c, x, r1')
      \<and> planning_loop rs2 as c x r2 ps = (ps', as, c, x, r2') \<and> R r1' r2'"
  using assms(2)
proof (induction as arbitrary: r1 r2 ps)
  case Nil
  then show ?case by simp
next
  case (Cons a as)
  obtain pl q1 q2 where p: "plan rs1 a c x r1 = (pl, a, c, x, q1)"
      "plan rs2 a c x r2 = (pl, a, c, x, q2)" and q: "R q1 q2"
    using plan_draws [OF assms(1) Cons.prems] by blast
  obtain ps' r1' r2' where
    l: "planning_loop rs1 as c x q1 (ps(agent_id a \<mapsto> pl)) = (ps', as, c, x, r1')"
       "planning_loop rs2 as c x q2 (ps(agent_id a \<mapsto> pl)) = (ps', as, c, x, r2')"
    and r: "R r1' r2'"
    using Cons.IH [OF q] by blast
  show ?case using p l r by simp
qed

lemma act_effect_draws:
  assumes "draws_agree R rs1 rs2" and "R r1 r2"
    and "act_effect rs1 pl a c r1 = Inr (a', c', r1', d)"
  shows "\<exists>r2'. act_effect rs2 pl a c r2 = Inr (a', c', r2', d) \<and> R r1' r2'"
proof (cases "action_type pl = ''crime''")
  case True
  obtain p q1 q2 where d: "random_op rs1 r1 = (p, q1)" "random_op rs2 r2 = (p, q2)"
    and q: "R q1 q2"
    using draws_agree_random [OF assms(1,2)] by blast
  show ?thesis
    using assms(3) True d q
    by (auto simp: act_effect_def Let_def split: sum.splits if_splits)
next
  case False
  then show ?thesis
    using assms(2,3)
    by (auto simp: act_effect_def Let_def split: sum.splits if_splits)
qed

lemma act_draws:
  assumes "draws_agree R rs1 rs2" and "R r1 r2"
    and "act rs1 pl a c r1 = Inr (a', c', r1')"
  shows "\<exists>r2'. act rs2 pl a c r2 = Inr (a', c', r2') \<and> R r1' r2'"
proof -
  obtain a1 c1 d where e: "act_effect rs1 pl a c r1 = Inr (a1, c1, r1', d)"
    using assms(3) by (auto simp: act_def Let_def split: sum.splits)
  obtain r2' where e2: "act_effect rs2 pl a c r2 = Inr (a1, c1, r2', d)" and r: "R r1' r2'"
    using act_effect_draws [OF assms(1,2) e] by blast
  show ?thesis
    using assms(3) e e2 r by (simp add: act_def Let_def)
qed

lemma actions_loop_draws:
  assumes "draws_agree R rs1 rs2" and "R r1 r2"
    and "actions_loop rs1 ps as c r1 = Inr (as', c', r1')"
  shows "\<exists>r2'. actions_loop rs2 ps as c r2 = Inr (as', c', r2') \<and> R r1' r2'"
  using assms(2,3)
proof (induction as arbitrary: c r1 r2 as')
  case Nil
  then show ?case by simp
next
  case (Cons a as)
  show ?case
  proof (cases "ps (agent_id a)")
    case None
    then obtain bs where l: "actions_loop rs1 ps as c r1 = Inr (bs, c', r1')"
      and b: "as' = a # bs"
      using Cons.prems(2) by (auto split: sum.splits)
    obtain r2' where "actions_loop rs2 ps as c r2 = Inr (bs, c', r2')" and "R r1' r2'"
      using Cons.IH [OF Cons.prems(1) l] by blast
    then show ?thesis using None b by simp
  next
    case (Some pl)
    then obtain a1 c1 q1 bs where a: "act rs1 pl a c r1 = Inr (a1, c1, q1)"
      and ne: "logs c1 \<noteq> []"
      and l: "actions_loop rs1 ps as c1 q1 = Inr (bs, c', r1')" and b: "as' = a1 # bs"
      using Cons.prems(2) by (auto split: sum.splits if_splits)
    obtain q2 where a2: "act rs2 pl a c r2 = Inr (a1, c1, q2)" and q: "R q1 q2"
      using act_draws [OF assms(1) Cons.prems(1) a] by blast
    obtain r2' where "actions_loop rs2 ps as c1 q2 = Inr (bs, c', r2')" and "R r1' r2'"
      using Cons.IH [OF q l] by blast
    then show ?thesis using Some a2 ne b by simp
  qed
qed

lemma day_context_draws:
  assumes "draws_agree R rs1 rs2" and "same_run_state R e1 e2"
  shows "\<exists>x d1 d2. day_context rs1 e1 = (x, d1) \<and> day_context rs2 e2 = (x, d2)
      \<and> city d1 = city e1 \<and> agents d1 = agents e1 \<and> same_run_state R d1 d2"
proof -
  have r: "R (rng e1) (rng e2)" and c: "city e1 = city e2" "agents e1 = agents e2"
    using assms(2) by (simp_all add: same_run_state_def)
  obtain w q1 q2 where w: "choice_op rs1 (rng e1) [''sunny'', ''cloudy'', ''rainy'', ''windy''] = (w, q1)"
      "choice_op rs2 (rng e2) [''sunny'', ''cloudy'', ''rainy'', ''windy''] = (w, q2)"
    and q: "R q1 q2"
    using draws_agree_choice [OF assms(1) r] by blast
  obtain p s1 s2 where p: "random_op rs1 q1 = (p, s1)" "random_op rs2 q2 = (p, s2)"
    and s: "R s1 s2"
    using draws_agree_random [OF assms(1) q] by blast
  show ?thesis
    using w p s c by (simp add: day_context_def random_weather_def same_run_state_def)
qed

lemma run_day_draws:
  assumes "draws_agree R rs1 rs2" and "same_run_state R e1 e2"
    and "run_day rs1 e1 = Inr (e1', ps)"
  shows "\<exists>e2'. run_day rs2 e2 = Inr (e2', ps) \<and> same_run_state R e1' e2'"
proof -
  have s0: "same_run_state R (day_start e1) (day_start e2)"
    using assms(2) by (simp add: same_run_state_def day_start_def)
  obtain x d1 d2 where x: "day_context rs1 (day_start e1) = (x, d1)"
      "day_context rs2 (day_start e2) = (x, d2)"
    and s1: "same_run_state R d1 d2"
    using day_context_draws [OF assms(1) s0] by blast
  have c: "city d1 = city d2" "agents d1 = agents d2" and r: "R (rng d1) (rng d2)"
    using s1 by (simp_all add: same_run_state_def)
  obtain ps' q1 q2 where
    l: "planning_loop rs1 (agents d1) (city d1) x (rng d1) Map.empty
          = (ps', agents d1, city d1, x, q1)"
       "planning_loop rs2 (agents d1) (city d1) x (rng d2) Map.empty
          = (ps', agents d1, city d1, x, q2)"
    and q: "R q1 q2"
    using planning_loop_draws [OF assms(1) r] by blast
  have cp: "citizen_planning rs1 d1 x = (ps', \<lparr>rng = q1, city = city d1, agents = agents d1\<rparr>, x)"
      "citizen_planning rs2 d2 x = (ps', \<lparr>rng = q2, city = city d1, agents = agents d1\<rparr>, x)"
    using l c by (simp_all add: citizen_planning_def)
  obtain as4 c4 t1 c5 where al: "actions_loop rs1 ps' (agents d1) (city d1) q1 = Inr (as4, c4, t1)"
    and cu: "city_update_phase c4 = Inr c5"
    and res: "e1' = next_day (\<lparr>rng = t1, city = c4, agents = as4\<rparr>\<lparr>city := c5\<rparr>)" "ps = ps'"
    using assms(3) x cp
    by (auto simp: run_day_def citizen_actions_def split: sum.splits)
  obtain t2 where al2: "actions_loop rs2 ps' (agents d1) (city d1) q2 = Inr (as4, c4, t2)"
    and t: "R t1 t2"
    using actions_loop_draws [OF assms(1) q al] by blast
  have "run_day rs2 e2 = Inr (next_day (\<lparr>rng = t2, city = c4, agents = as4\<rparr>\<lparr>city := c5\<rparr>), ps)"
    using x cp al2 cu res by (simp add: run_day_def citizen_actions_def)
  moreover have "same_run_state R e1' (next_day (\<lparr>rng = t2, city = c4, agents = as4\<rparr>\<lparr>city := c5\<rparr>))"
    using res t by (simp add: same_run_state_def next_day_def)
  ultimately show ?thesis by blast
qed

lemma run_days_draws:
  assumes "draws_agree R rs1 rs2" and "same_run_state R e1 e2"
    and "run_days rs1 n e1 = Inr (e1', tr)"
  shows "\<exists>e2'. run_days rs2 n e2 = Inr (e2', tr) \<and> same_run_state R e1' e2'"
  using assms(2,3)
proof (induction n arbitrary: e1 e2 tr)
  case 0
  then show ?case by simp
next
  case (Suc n)
  obtain d1 ps tr' where d: "run_day rs1 e1 = Inr (d1, ps)"
    and r: "run_days rs1 n d1 = Inr (e1', tr')" and t: "tr = ps # tr'"
    using Suc.prems(2) by (auto split: sum.splits)
  obtain d2 where d2: "run_day rs2 e2 = Inr (d2, ps)" and s: "same_run_state R d1 d2"
    using run_day_draws [OF assms(1) Suc.prems(1) d] by blast
  obtain e2' where "run_days rs2 n d2 = Inr (e2', tr')" and "same_run_state R e1' e2'"
    using Suc.IH [OF s r] by blast
  then show ?case using d2 t by simp
qed

lemma draws_agree_same_source: "draws_agree (=) rs rs"
  by (simp add: draws_agree_def)

lemma draws_agree_scripted_indexed: "draws_agree indexed_rel scripted indexed"
  unfolding draws_agree_def
proof (intro conjI allI impI)
  fix xs :: "real list" and st :: "nat \<times> int"
  assume r: "indexed_rel xs st"
  obtain i n where st: "st = (i, n)" by (cases st)
  consider "i = 0" | "i = 1" | "i = 2" | "3 \<le> i" by linarith
  then have "fst (random_op scripted xs) = fst (random_op indexed st)
      \<and> indexed_rel (snd (random_op scripted xs)) (snd (random_op indexed st))"
    using r st by cases (simp_all add: indexed_rel_def scripted_def indexed_def)
  then show "fst (random_op scripted xs) = fst (random_op indexed st)"
    and "indexed_rel (snd (random_op scripted xs)) (snd (random_op indexed st))"
    by simp_all
next
  fix xs :: "real list" and st :: "nat \<times> int" and seq :: "string list"
  assume "indexed_rel xs st"
  then show "fst (choice_op scripted xs seq) = fst (choice_op indexed st seq)"
    and "indexed_rel (snd (choice_op scripted xs seq)) (snd (choice_op indexed st seq))"
    by (simp_all add: scripted_def indexed_def)
qed

subsection \<open>One evaluated day\<close>

text \<open>
  The first day of the example engine, evaluated: the scripted draws give three \<open>work\<close>
  actions, one \<open>rest\<close>, one \<open>shop\<close> and one \<open>patrol\<close>.
\<close>

lemmas example_defs =
  example_engine_def example_city_def engine_init_def scripted_def run_day_def day_start_def
  day_context_def random_weather_def citizen_planning_def citizen_actions_def
  create_default_agents_def Agent_def CityState_def reset_daily_stats_def plan_def
  PlannedAction_def act_def act_effect_def incr_stat_def log_action_def or_default_def
  city_update_phase_def stat_def clamp_metrics_def next_day_def Let_def

lemma example_day_city:
  "economy (city (fst (projr (run_day scripted example_engine)))) = 106.7635
   \<and> safety (city (fst (projr (run_day scripted example_engine)))) = 0.81
   \<and> happiness (city (fst (projr (run_day scripted example_engine)))) = 0.805
   \<and> day (city (fst (projr (run_day scripted example_engine)))) = 2
   \<and> map description (logs (city (fst (projr (run_day scripted example_engine)))))
      = [''worked at office and earned 10.0.'', ''stayed home to rest.'',
         ''ran the shop at store, trading with customers.'',
         ''worked at school and earned 10.0.'', ''patrolled the city streets.'',
         ''worked at generic_job and earned 10.0.'']"
  by (simp add: example_defs)

text \<open>
  The generator is what a run depends on: the same engine with another second draw gives
  Alice another plan.
\<close>

lemma run_day_depends_on_draws:
  "map_option action_type
      (snd (projr (run_day scripted (example_engine\<lparr>rng := [0.5, 0.1]\<rparr>))) 1) = Some ''work''
   \<and> map_option action_type
      (snd (projr (run_day scripted (example_engine\<lparr>rng := [0.5, 0.8]\<rparr>))) 1) = Some ''socialize''"
  by (simp add: example_defs)

section \<open>The claims\<close>

text \<open>
  C1 (shop without funds), as amended. An agent with less than 5 units of money that
  executes a \<open>shop\<close> action keeps its money, the economy is not increased, and the
  statistics are unchanged: \<open>shop_count\<close> is incremented only in the branch where the
  shop is run. The generator is not used.
\<close>

theorem act_shop_without_funds:
  "action_type pl = ''shop'' \<Longrightarrow> money a < 5 \<Longrightarrow>
     \<exists>a' c'. act rs pl a c r = Inr (a', c', r)
        \<and> money a' = money a \<and> economy c' = economy c \<and> daily_stats c' = daily_stats c"
  by (simp add: act_def act_effect_def log_action_def)

theorem act_shop_without_funds_witness:
  "action_type (PlannedAction ''shop'' (Some ''store'') []) = ''shop''
   \<and> money (Agent 3 ''Carla'' ''shop_owner''\<lparr>money := 3\<rparr>) < 5
   \<and> \<not> isl (act scripted (PlannedAction ''shop'' (Some ''store'') [])
              (Agent 3 ''Carla'' ''shop_owner''\<lparr>money := 3\<rparr>) example_city [0.5])
   \<and> money (fst (projr (act scripted (PlannedAction ''shop'' (Some ''store'') [])
              (Agent 3 ''Carla'' ''shop_owner''\<lparr>money := 3\<rparr>) example_city [0.5]))) = 3
   \<and> economy (fst (snd (projr (act scripted (PlannedAction ''shop'' (Some ''store'') [])
              (Agent 3 ''Carla'' ''shop_owner''\<lparr>money := 3\<rparr>) example_city [0.5])))) = 100
   \<and> daily_stats (fst (snd (projr (act scripted (PlannedAction ''shop'' (Some ''store'') [])
              (Agent 3 ''Carla'' ''shop_owner''\<lparr>money := 3\<rparr>) example_city [0.5]))))
        ''shop_count'' = Some 0"
  using act_shop_without_funds [of "PlannedAction ''shop'' (Some ''store'') []"
      "Agent 3 ''Carla'' ''shop_owner''\<lparr>money := 3\<rparr>" scripted example_city "[0.5]"]
  by (auto simp: PlannedAction_def Agent_def example_city_def reset_daily_stats_def CityState_def)

text \<open>
  C1 as the specification states it fails: with 3 units of money and a \<open>shop_count\<close> of 0,
  \<open>act\<close> returns normally and \<open>shop_count\<close> is still 0, not 1.
\<close>

theorem act_shop_without_funds_counterexample:
  "money (Agent 3 ''Carla'' ''shop_owner''\<lparr>money := 3\<rparr>) < 5
   \<and> daily_stats example_city ''shop_count'' = Some 0
   \<and> \<not> isl (act scripted (PlannedAction ''shop'' (Some ''store'') [])
              (Agent 3 ''Carla'' ''shop_owner''\<lparr>money := 3\<rparr>) example_city [])
   \<and> daily_stats (fst (snd (projr (act scripted (PlannedAction ''shop'' (Some ''store'') [])
              (Agent 3 ''Carla'' ''shop_owner''\<lparr>money := 3\<rparr>) example_city []))))
        ''shop_count'' \<noteq> Some (0 + 1)"
  by (simp add: act_def act_effect_def log_action_def Agent_def PlannedAction_def
      example_city_def reset_daily_stats_def CityState_def)

text \<open>
  C2 (city update rule). When the statistics hold the seven counters, the update phase
  returns the city with
  \<open>economy' = (economy + (0.5 * work_count + 0.3 * shop_count)) * 0.995\<close>, not clamped, and
  with safety and happiness moved by the linear rule and then clamped to the unit interval.
\<close>

theorem city_update_phase_rule:
  "daily_stats c ''work_count'' = Some wc \<Longrightarrow> daily_stats c ''shop_count'' = Some sc \<Longrightarrow>
   daily_stats c ''patrol_count'' = Some pc \<Longrightarrow> daily_stats c ''crime_attempts'' = Some ca \<Longrightarrow>
   daily_stats c ''crime_prevented'' = Some cp \<Longrightarrow>
   daily_stats c ''social_interactions'' = Some si \<Longrightarrow> daily_stats c ''rest_count'' = Some rc \<Longrightarrow>
     city_update_phase c =
       Inr (c\<lparr>economy := (economy c + (0.5 * wc + 0.3 * sc)) * 0.995,
              safety := max 0 (min 1 (safety c + 0.01 * pc - 0.03 * ca + 0.02 * cp)),
              happiness := max 0 (min 1 (happiness c + 0.01 * si + 0.005 * rc - 0.015 * ca))\<rparr>)"
  by (simp add: city_update_phase_def stat_def clamp_metrics_def Let_def)

theorem city_update_phase_rule_witness:
  "city_update_phase (CityState\<lparr>daily_stats :=
       [''work_count'' \<mapsto> 3, ''shop_count'' \<mapsto> 1, ''patrol_count'' \<mapsto> 30,
        ''crime_attempts'' \<mapsto> 2, ''crime_prevented'' \<mapsto> 1,
        ''social_interactions'' \<mapsto> 0, ''rest_count'' \<mapsto> 1]\<rparr>)
    = Inr (CityState\<lparr>daily_stats :=
       [''work_count'' \<mapsto> 3, ''shop_count'' \<mapsto> 1, ''patrol_count'' \<mapsto> 30,
        ''crime_attempts'' \<mapsto> 2, ''crime_prevented'' \<mapsto> 1,
        ''social_interactions'' \<mapsto> 0, ''rest_count'' \<mapsto> 1],
        economy := 101.291, safety := 1, happiness := 0.775\<rparr>)"
  using city_update_phase_rule [of "CityState\<lparr>daily_stats :=
       [''work_count'' \<mapsto> 3, ''shop_count'' \<mapsto> 1, ''patrol_count'' \<mapsto> 30,
        ''crime_attempts'' \<mapsto> 2, ''crime_prevented'' \<mapsto> 1,
        ''social_interactions'' \<mapsto> 0, ''rest_count'' \<mapsto> 1]\<rparr>" 3 1 30 2 1 0 1]
  by (simp add: CityState_def)

text \<open>
  C3 (fatigue override). An agent whose energy is below 0.3 plans \<open>rest\<close>, whatever its
  role, the city, the day context and the random source: the check comes before the
  dispatch on the role, and no number is drawn.
\<close>

theorem plan_fatigue_override:
  "energy a < 0.3 \<Longrightarrow>
     fst (plan rs a c x r) = PlannedAction ''rest'' None ''Too tired, staying home.''
     \<and> action_type (fst (plan rs a c x r)) = ''rest''
     \<and> snd (snd (snd (snd (plan rs a c x r)))) = r"
  by (simp add: plan_def PlannedAction_def)

theorem plan_fatigue_override_witness:
  "energy (Agent 5 ''Eva'' ''police''\<lparr>energy := 0.2\<rparr>) < 0.3
   \<and> action_type (fst (plan scripted (Agent 5 ''Eva'' ''police''\<lparr>energy := 0.2\<rparr>) CityState
        \<lparr>ctx_day = 1, weather = ''sunny'', events = []\<rparr> [0.1])) = ''rest''"
  using plan_fatigue_override [of "Agent 5 ''Eva'' ''police''\<lparr>energy := 0.2\<rparr>" scripted CityState
      "\<lparr>ctx_day = 1, weather = ''sunny'', events = []\<rparr>" "[0.1]"]
  by (simp add: Agent_def PlannedAction_def)

text \<open>
  C4 (bounds). Whenever \<open>act\<close> returns, the agent's energy and mood lie in the unit
  interval, and \<open>act\<close> does return on a city whose statistics hold the seven counters.
  Whenever the update phase returns, safety and happiness lie in the unit interval; it
  returns on such a city, and a whole day of the engine always ends with safety and
  happiness in the unit interval. The economy is not constrained: every real number is
  the economy after some update.
\<close>

theorem act_and_city_update_bounds:
  "(act rs pl a c r = Inr (a', c', r')
      \<longrightarrow> 0 \<le> energy a' \<and> energy a' \<le> 1 \<and> 0 \<le> mood a' \<and> mood a' \<le> 1)
   \<and> (stats_ready c \<longrightarrow> \<not> isl (act rs pl a c r))
   \<and> (city_update_phase u = Inr u'
      \<longrightarrow> 0 \<le> safety u' \<and> safety u' \<le> 1 \<and> 0 \<le> happiness u' \<and> happiness u' \<le> 1)
   \<and> (stats_ready u \<longrightarrow> \<not> isl (city_update_phase u))
   \<and> (\<exists>e1 ps. run_day rs e = Inr (e1, ps)
        \<and> 0 \<le> safety (city e1) \<and> safety (city e1) \<le> 1
        \<and> 0 \<le> happiness (city e1) \<and> happiness (city e1) \<le> 1)
   \<and> (\<forall>v. \<exists>w w'. city_update_phase w = Inr w' \<and> economy w' = v)"
proof -
  have f1: "act rs pl a c r = Inr (a', c', r')
      \<longrightarrow> 0 \<le> energy a' \<and> energy a' \<le> 1 \<and> 0 \<le> mood a' \<and> mood a' \<le> 1"
    using act_clamped [of rs pl a c r a' c' r'] by blast
  have f2: "stats_ready c \<longrightarrow> \<not> isl (act rs pl a c r)"
    using act_ok [of c rs pl a r] by auto
  have f3: "city_update_phase u = Inr u'
      \<longrightarrow> 0 \<le> safety u' \<and> safety u' \<le> 1 \<and> 0 \<le> happiness u' \<and> happiness u' \<le> 1"
    using city_update_phase_Inr [of u u'] by blast
  have f4: "stats_ready u \<longrightarrow> \<not> isl (city_update_phase u)"
    using city_update_phase_ok [of u] by auto
  have f5: "\<exists>e1 ps. run_day rs e = Inr (e1, ps)
        \<and> 0 \<le> safety (city e1) \<and> safety (city e1) \<le> 1
        \<and> 0 \<le> happiness (city e1) \<and> happiness (city e1) \<le> 1"
    using run_day_result [of rs e] by blast
  have f6: "\<forall>v. \<exists>w w'. city_update_phase w = Inr w' \<and> economy w' = v"
  proof
    fix v :: real
    have "city_update_phase (example_city\<lparr>economy := v / 0.995\<rparr>)
        = Inr (example_city\<lparr>economy := v, safety := 0.8, happiness := 0.8\<rparr>)"
      by (simp add: city_update_phase_def stat_def clamp_metrics_def example_city_def
          reset_daily_stats_def CityState_def)
    moreover have "economy (example_city\<lparr>economy := v, safety := 0.8, happiness := 0.8\<rparr>) = v"
      by simp
    ultimately show "\<exists>w w'. city_update_phase w = Inr w' \<and> economy w' = v"
      by blast
  qed
  show ?thesis
    by (intro conjI) (rule f1, rule f2, rule f3, rule f4, rule f5, rule f6)
qed

theorem act_and_city_update_bounds_witness:
  "\<not> isl (act scripted (PlannedAction ''rest'' None []) (Agent 2 ''Bob'' ''worker'') example_city [])
   \<and> energy (fst (projr (act scripted (PlannedAction ''rest'' None [])
        (Agent 2 ''Bob'' ''worker'') example_city []))) = 1
   \<and> mood (fst (projr (act scripted (PlannedAction ''rest'' None [])
        (Agent 2 ''Bob'' ''worker'') example_city []))) = 0.55
   \<and> stats_ready example_city
   \<and> \<not> isl (city_update_phase (example_city\<lparr>safety := 1.2, happiness := - 0.5\<rparr>))
   \<and> safety (projr (city_update_phase (example_city\<lparr>safety := 1.2, happiness := - 0.5\<rparr>))) = 1
   \<and> happiness (projr (city_update_phase (example_city\<lparr>safety := 1.2, happiness := - 0.5\<rparr>))) = 0"
  using act_and_city_update_bounds [of scripted "PlannedAction ''rest'' None []"
      "Agent 2 ''Bob'' ''worker''" example_city "[]"
      "fst (projr (act scripted (PlannedAction ''rest'' None [])
          (Agent 2 ''Bob'' ''worker'') example_city []))"
      "fst (snd (projr (act scripted (PlannedAction ''rest'' None [])
          (Agent 2 ''Bob'' ''worker'') example_city [])))"
      "snd (snd (projr (act scripted (PlannedAction ''rest'' None [])
          (Agent 2 ''Bob'' ''worker'') example_city [])))"
      "example_city\<lparr>safety := 1.2, happiness := - 0.5\<rparr>"
      "projr (city_update_phase (example_city\<lparr>safety := 1.2, happiness := - 0.5\<rparr>))"
      example_engine]
  by (simp add: act_def act_effect_def incr_stat_def log_action_def PlannedAction_def Agent_def
      example_city_def reset_daily_stats_def CityState_def city_update_phase_def stat_def
      clamp_metrics_def stats_ready_def stat_keys_def)

text \<open>
  C5 (determinism). Two independent runs, each with a generator of its own, get the same
  integer seed, the same roster and the same number of days. If the two generators
  deliver the same draws from that seed (the contract of the random source: a seed fixes
  the draws), both runs return, with the same plans day by day, the same final city
  (metrics, statistics and the whole log) and the same final agents, and the generators
  end in related states. The entropy of the operating system, which seeds only an
  engine built without a seed, plays no part.
\<close>

theorem run_deterministic:
  assumes "draws_agree R rs1 rs2" and "R (seed_op rs1 s) (seed_op rs2 s)"
  shows "\<exists>e1 e2 tr.
      run rs1 ((engine_init rs1 entropy (Some s))\<lparr>agents := roster\<rparr>) days = Inr (e1, tr)
      \<and> run rs2 ((engine_init rs2 entropy' (Some s))\<lparr>agents := roster\<rparr>) days = Inr (e2, tr)
      \<and> city e1 = city e2 \<and> agents e1 = agents e2 \<and> R (rng e1) (rng e2)"
proof -
  let ?i1 = "(engine_init rs1 entropy (Some s))\<lparr>agents := roster\<rparr>"
  let ?i2 = "(engine_init rs2 entropy' (Some s))\<lparr>agents := roster\<rparr>"
  have i: "same_run_state R ?i1 ?i2"
    using assms(2) by (simp add: same_run_state_def engine_init_def)
  obtain e1 tr where r1: "run_days rs1 (nat days) ?i1 = Inr (e1, tr)"
    using run_days_result [of rs1 "nat days" ?i1] by blast
  obtain e2 where r2: "run_days rs2 (nat days) ?i2 = Inr (e2, tr)"
    and s: "same_run_state R e1 e2"
    using run_days_draws [OF assms(1) i r1] by blast
  show ?thesis
    using r1 r2 s by (simp add: run_def same_run_state_def)
qed

theorem run_deterministic_witness:
  "draws_agree indexed_rel scripted indexed
   \<and> indexed_rel (seed_op scripted 42) (seed_op indexed 42)
   \<and> \<not> isl (run scripted (engine_init scripted 0 (Some 42)) 2)
   \<and> snd (projr (run scripted (engine_init scripted 0 (Some 42)) 2))
      = snd (projr (run indexed (engine_init indexed 99 (Some 42)) 2))
   \<and> city (fst (projr (run scripted (engine_init scripted 0 (Some 42)) 2)))
      = city (fst (projr (run indexed (engine_init indexed 99 (Some 42)) 2)))
   \<and> agents (fst (projr (run scripted (engine_init scripted 0 (Some 42)) 2)))
      = agents (fst (projr (run indexed (engine_init indexed 99 (Some 42)) 2)))"
proof -
  have s: "indexed_rel (seed_op scripted 42) (seed_op indexed 42)"
    by (simp add: indexed_rel_def scripted_def indexed_def)
  have i: "(engine_init scripted 0 (Some 42))\<lparr>agents := create_default_agents\<rparr>
        = engine_init scripted 0 (Some 42)"
      "(engine_init indexed 99 (Some 42))\<lparr>agents := create_default_agents\<rparr>
        = engine_init indexed 99 (Some 42)"
    by (simp_all add: engine_init_def)
  show ?thesis
    using run_deterministic [OF draws_agree_scripted_indexed s, where entropy = 0
        and entropy' = 99 and roster = create_default_agents and days = 2]
      draws_agree_scripted_indexed s
    by (auto simp: i)
qed

text \<open>
  C6 (shop owner). A shop owner with energy at least 0.3 draws one number \<open>p\<close> and plans
  \<open>rest\<close> if the economy is below 80 and \<open>p < 0.3\<close>, otherwise \<open>shop\<close> at the store if
  \<open>p < 0.75\<close>, otherwise \<open>socialize\<close> at the market. In particular a bad economy with
  \<open>0.3 \<le> p < 0.75\<close> gives \<open>shop\<close>.
\<close>

theorem plan_shop_owner:
  "role a = ''shop_owner'' \<Longrightarrow> energy a \<ge> 0.3 \<Longrightarrow> random_op rs r = (p, r') \<Longrightarrow>
     plan rs a c x r =
       (if economy c < 80 \<and> p < 0.3 then PlannedAction ''rest'' None ''Economy looks bad.''
        else if p < 0.75 then PlannedAction ''shop'' (Some ''store'') []
        else PlannedAction ''socialize'' (Some ''market'') [], a, c, x, r')
     \<and> (economy c < 80 \<and> 0.3 \<le> p \<and> p < 0.75 \<longrightarrow> action_type (fst (plan rs a c x r)) = ''shop'')"
  by (simp add: plan_def PlannedAction_def)

theorem plan_shop_owner_witness:
  "role (Agent 3 ''Carla'' ''shop_owner'') = ''shop_owner''
   \<and> energy (Agent 3 ''Carla'' ''shop_owner'') \<ge> 0.3
   \<and> random_op scripted [0.5, 0.1] = (0.5, [0.1])
   \<and> economy (CityState\<lparr>economy := 70\<rparr>) < 80
   \<and> plan scripted (Agent 3 ''Carla'' ''shop_owner'') (CityState\<lparr>economy := 70\<rparr>)
        \<lparr>ctx_day = 1, weather = ''rainy'', events = []\<rparr> [0.5, 0.1]
      = (PlannedAction ''shop'' (Some ''store'') [], Agent 3 ''Carla'' ''shop_owner'',
         CityState\<lparr>economy := 70\<rparr>, \<lparr>ctx_day = 1, weather = ''rainy'', events = []\<rparr>, [0.1])"
  using plan_shop_owner [of "Agent 3 ''Carla'' ''shop_owner''" scripted "[0.5, 0.1]" "0.5" "[0.1]"
      "CityState\<lparr>economy := 70\<rparr>" "\<lparr>ctx_day = 1, weather = ''rainy'', events = []\<rparr>"]
  by (simp add: Agent_def scripted_def CityState_def)

text \<open>
  C7 (crime). A \<open>crime\<close> action increments \<open>crime_attempts\<close> whether the draw succeeds
  or not. When the draw fails (\<open>p\<close> is not below \<open>0.3 + (0.5 - safety)\<close>), the mood is the
  clamp of the old mood minus 0.2, \<open>crime_prevented\<close> is incremented, and safety and money
  are unchanged; when it succeeds, safety drops by 0.05 and \<open>crime_prevented\<close> is unchanged.
\<close>

theorem act_crime_outcomes:
  "action_type pl = ''crime'' \<Longrightarrow> random_op rs r = (p, r') \<Longrightarrow>
   daily_stats c ''crime_attempts'' = Some n \<Longrightarrow> daily_stats c ''crime_prevented'' = Some m \<Longrightarrow>
     \<exists>a' c'. act rs pl a c r = Inr (a', c', r')
       \<and> daily_stats c' ''crime_attempts'' = Some (n + 1)
       \<and> (if p < 0.3 + (0.5 - safety c)
           then safety c' = safety c - 0.05 \<and> daily_stats c' ''crime_prevented'' = Some m
           else mood a' = max 0 (min 1 (mood a - 0.2))
              \<and> daily_stats c' ''crime_prevented'' = Some (m + 1)
              \<and> safety c' = safety c \<and> money a' = money a)"
  by (simp add: act_def act_effect_def log_action_def incr_stat_def Let_def)

theorem act_crime_outcomes_witness:
  "action_type (PlannedAction ''crime'' None []) = ''crime''
   \<and> random_op scripted [0.5] = (0.5, [])
   \<and> \<not> 0.5 < 0.3 + (0.5 - safety example_city)
   \<and> \<not> isl (act scripted (PlannedAction ''crime'' None []) (Agent 6 ''Frank'' ''citizen'')
          example_city [0.5])
   \<and> mood (fst (projr (act scripted (PlannedAction ''crime'' None [])
          (Agent 6 ''Frank'' ''citizen'') example_city [0.5]))) = 0.3
   \<and> safety (fst (snd (projr (act scripted (PlannedAction ''crime'' None [])
          (Agent 6 ''Frank'' ''citizen'') example_city [0.5])))) = 0.8
   \<and> daily_stats (fst (snd (projr (act scripted (PlannedAction ''crime'' None [])
          (Agent 6 ''Frank'' ''citizen'') example_city [0.5])))) ''crime_attempts'' = Some 1
   \<and> daily_stats (fst (snd (projr (act scripted (PlannedAction ''crime'' None [])
          (Agent 6 ''Frank'' ''citizen'') example_city [0.5])))) ''crime_prevented'' = Some 1"
  using act_crime_outcomes [of "PlannedAction ''crime'' None []" scripted "[0.5]" "0.5" "[]"
      example_city 0 0 "Agent 6 ''Frank'' ''citizen''"]
  by (auto simp: PlannedAction_def scripted_def Agent_def example_city_def
      reset_daily_stats_def CityState_def)

text \<open>
  C8 (one log entry per action). Whenever \<open>act\<close> returns, the log is the old log followed
  by exactly one entry, which carries the city's day and the agent's id, name and role;
  \<open>act\<close> returns on every city whose statistics hold the seven counters, as they do
  from the start of each day. One day of the engine always returns, with a plan recorded
  for exactly the ids of the roster and with the log extended by one entry per agent, in
  roster order, each stamped with that day. A run of \<open>days\<close> days returns one dictionary of
  plans per day and extends the log by \<open>days\<close> times the size of the roster; the entries
  that were there before are kept in place.
\<close>

theorem act_logs_one_entry:
  "(act rs pl a c r = Inr (a', c', r')
      \<longrightarrow> (\<exists>d. logs c' = logs c @ [\<lparr>entry_day = day c, entry_agent_id = agent_id a,
              entry_agent_name = name a, entry_role = role a, description = d\<rparr>]))
   \<and> (stats_ready c \<longrightarrow> \<not> isl (act rs pl a c r))
   \<and> (\<exists>e1 ps es. run_day rs e = Inr (e1, ps)
        \<and> dom ps = agent_id ` set (agents e)
        \<and> logs (city e1) = logs (city e) @ es
        \<and> map (\<lambda>x. (entry_day x, entry_agent_id x, entry_agent_name x, entry_role x)) es
            = map (\<lambda>b. (day (city e), agent_id b, name b, role b)) (agents e))
   \<and> (\<exists>e2 tr es. run rs e days = Inr (e2, tr) \<and> length tr = nat days
        \<and> logs (city e2) = logs (city e) @ es
        \<and> length es = nat days * length (agents e))"
proof -
  have f1: "act rs pl a c r = Inr (a', c', r')
      \<longrightarrow> (\<exists>d. logs c' = logs c @ [\<lparr>entry_day = day c, entry_agent_id = agent_id a,
              entry_agent_name = name a, entry_role = role a, description = d\<rparr>])"
    using act_frame [of rs pl a c r a' c' r'] by blast
  have f2: "stats_ready c \<longrightarrow> \<not> isl (act rs pl a c r)"
    using act_ok [of c rs pl a r] by auto
  have f3: "\<exists>e1 ps es. run_day rs e = Inr (e1, ps)
        \<and> dom ps = agent_id ` set (agents e)
        \<and> logs (city e1) = logs (city e) @ es
        \<and> map (\<lambda>x. (entry_day x, entry_agent_id x, entry_agent_name x, entry_role x)) es
            = map (\<lambda>b. (day (city e), agent_id b, name b, role b)) (agents e)"
    using run_day_result [of rs e] by blast
  have f4: "\<exists>e2 tr es. run rs e days = Inr (e2, tr) \<and> length tr = nat days
        \<and> logs (city e2) = logs (city e) @ es
        \<and> length es = nat days * length (agents e)"
    unfolding run_def using run_days_result [of rs "nat days" e] by blast
  show ?thesis
    by (intro conjI) (rule f1, rule f2, rule f3, rule f4)
qed

theorem act_logs_one_entry_witness:
  "stats_ready example_city
   \<and> act scripted (PlannedAction ''patrol'' None []) (Agent 5 ''Eva'' ''police'')
        (example_city\<lparr>day := 7\<rparr>) []
      = Inr (Agent 5 ''Eva'' ''police''\<lparr>energy := 0.8\<rparr>,
             example_city\<lparr>day := 7,
               daily_stats := (daily_stats example_city)(''patrol_count'' \<mapsto> 1),
               logs := [\<lparr>entry_day = 7, entry_agent_id = 5, entry_agent_name = ''Eva'',
                         entry_role = ''police'',
                         description = ''patrolled the city streets.''\<rparr>]\<rparr>, [])
   \<and> map (\<lambda>x. (entry_day x, entry_agent_id x, description x))
        (logs (city (fst (projr (run_day scripted example_engine)))))
      = [(1, 1, ''worked at office and earned 10.0.''), (1, 2, ''stayed home to rest.''),
         (1, 3, ''ran the shop at store, trading with customers.''),
         (1, 4, ''worked at school and earned 10.0.''), (1, 5, ''patrolled the city streets.''),
         (1, 6, ''worked at generic_job and earned 10.0.'')]"
  using act_logs_one_entry [of scripted "PlannedAction ''patrol'' None []"
      "Agent 5 ''Eva'' ''police''" "example_city\<lparr>day := 7\<rparr>" "[]"
      "Agent 5 ''Eva'' ''police''\<lparr>energy := 0.8\<rparr>"
      "example_city\<lparr>day := 7,
               daily_stats := (daily_stats example_city)(''patrol_count'' \<mapsto> 1),
               logs := [\<lparr>entry_day = 7, entry_agent_id = 5, entry_agent_name = ''Eva'',
                         entry_role = ''police'',
                         description = ''patrolled the city streets.''\<rparr>]\<rparr>" "[]"
      example_engine 1, THEN conjunct1]
  by (simp add: example_defs stats_ready_def stat_keys_def)

text \<open>
  C9 (frame of plan). \<open>plan\<close> returns the agent, the city and the day context as it
  received them. Only the generator changes: it is advanced by one draw, unless the
  agent is too tired, in which case it is unchanged as well.
\<close>

theorem plan_frame:
  "fst (snd (plan rs a c x r)) = a
   \<and> fst (snd (snd (plan rs a c x r))) = c
   \<and> fst (snd (snd (snd (plan rs a c x r)))) = x
   \<and> snd (snd (snd (snd (plan rs a c x r))))
       = (if energy a < 0.3 then r else snd (random_op rs r))"
  by (simp add: plan_def Let_def split_beta)

text \<open>
  C10 (no crime is ever planned). Whatever the role, energy, city, context and draw,
  \<open>plan\<close> returns one of \<open>work\<close>, \<open>shop\<close>, \<open>rest\<close>, \<open>patrol\<close>, \<open>socialize\<close>, never \<open>crime\<close>.
  Hence in every day of the engine no recorded plan is a crime, so the crime branch of
  \<open>act\<close> is not taken, and the counters \<open>crime_attempts\<close> and \<open>crime_prevented\<close> are 0 at
  the end of the day; the same holds for every day of a run.
\<close>

theorem plan_never_crime:
  "action_type (fst (plan rs a c x r)) \<in> {''work'', ''shop'', ''rest'', ''patrol'', ''socialize''}
   \<and> action_type (fst (plan rs a c x r)) \<noteq> ''crime''
   \<and> (\<exists>e1 ps. run_day rs e = Inr (e1, ps)
        \<and> (\<forall>i q. ps i = Some q \<longrightarrow> action_type q \<noteq> ''crime'')
        \<and> daily_stats (city e1) ''crime_attempts'' = Some 0
        \<and> daily_stats (city e1) ''crime_prevented'' = Some 0)
   \<and> (\<exists>e2 tr. run rs e days = Inr (e2, tr)
        \<and> (\<forall>ps \<in> set tr. \<forall>i q. ps i = Some q \<longrightarrow> action_type q \<noteq> ''crime'')
        \<and> (0 < days \<longrightarrow> daily_stats (city e2) ''crime_attempts'' = Some 0
              \<and> daily_stats (city e2) ''crime_prevented'' = Some 0))"
proof -
  have p: "action_type (fst (plan rs a c x r)) \<in> planned_types"
    using plan_result [of rs a c x r] by auto
  then have f1: "action_type (fst (plan rs a c x r))
      \<in> {''work'', ''shop'', ''rest'', ''patrol'', ''socialize''}"
    by (simp add: planned_types_def)
  have f2: "action_type (fst (plan rs a c x r)) \<noteq> ''crime''"
    using p by (rule planned_not_crime)
  have f3: "\<exists>e1 ps. run_day rs e = Inr (e1, ps)
        \<and> (\<forall>i q. ps i = Some q \<longrightarrow> action_type q \<noteq> ''crime'')
        \<and> daily_stats (city e1) ''crime_attempts'' = Some 0
        \<and> daily_stats (city e1) ''crime_prevented'' = Some 0"
  proof -
    obtain e1 ps where d: "run_day rs e = Inr (e1, ps)"
      and t: "\<forall>i q. ps i = Some q \<longrightarrow> action_type q \<in> planned_types"
      and z: "daily_stats (city e1) ''crime_attempts'' = Some 0"
             "daily_stats (city e1) ''crime_prevented'' = Some 0"
      using run_day_result [of rs e] by blast
    have "\<forall>i q. ps i = Some q \<longrightarrow> action_type q \<noteq> ''crime''"
      using t planned_not_crime by blast
    then show ?thesis using d z by blast
  qed
  have f4: "\<exists>e2 tr. run rs e days = Inr (e2, tr)
        \<and> (\<forall>ps \<in> set tr. \<forall>i q. ps i = Some q \<longrightarrow> action_type q \<noteq> ''crime'')
        \<and> (0 < days \<longrightarrow> daily_stats (city e2) ''crime_attempts'' = Some 0
              \<and> daily_stats (city e2) ''crime_prevented'' = Some 0)"
  proof -
    obtain e2 tr where d: "run_days rs (nat days) e = Inr (e2, tr)"
      and t: "\<forall>ps \<in> set tr. \<forall>i q. ps i = Some q \<longrightarrow> action_type q \<in> planned_types"
      using run_days_result [of rs "nat days" e] by blast
    have "\<forall>ps \<in> set tr. \<forall>i q. ps i = Some q \<longrightarrow> action_type q \<noteq> ''crime''"
      using t planned_not_crime by blast
    moreover have "0 < days \<longrightarrow> daily_stats (city e2) ''crime_attempts'' = Some 0
              \<and> daily_stats (city e2) ''crime_prevented'' = Some 0"
      using run_days_crime_free [OF d] by simp
    ultimately show ?thesis using d by (simp add: run_def)
  qed
  show ?thesis
    by (intro conjI) (rule f1, rule f2, rule f3, rule f4)
qed

theorem plan_never_crime_witness:
  "action_type (fst (plan scripted (Agent 5 ''Eva'' ''police'') (CityState\<lparr>safety := 0.1\<rparr>)
        \<lparr>ctx_day = 1, weather = ''windy'', events = [''crime_wave'']\<rparr> [0.95])) = ''patrol''
   \<and> map (\<lambda>i. map_option action_type (snd (projr (run_day scripted example_engine)) i))
        [1, 2, 3, 4, 5, 6, 7]
      = [Some ''work'', Some ''rest'', Some ''shop'', Some ''work'', Some ''patrol'',
         Some ''work'', None]
   \<and> daily_stats (city (fst (projr (run_day scripted example_engine)))) ''crime_attempts'' = Some 0
   \<and> daily_stats (city (fst (projr (run_day scripted example_engine)))) ''crime_prevented'' = Some 0"
  using plan_never_crime [of scripted "Agent 5 ''Eva'' ''police''" "CityState\<lparr>safety := 0.1\<rparr>"
      "\<lparr>ctx_day = 1, weather = ''windy'', events = [''crime_wave'']\<rparr>" "[0.95]"
      example_engine 1, THEN conjunct1]
  by (simp add: example_defs)

end
